theory Spec2Isabelle
  imports Complex_Main "HOL-Library.Word"
begin

unbundle bit_operations_syntax

section \<open>Data model of recoverymapmath.cpp\<close>

text \<open>
  Arithmetic on the C++ type \<open>float\<close> is embedded as arithmetic on \<open>real\<close>: every
  operation is taken at its mathematical value and the rounding of binary32 is not modelled.
  \<open>None\<close> stands for every outcome that this embedding does not represent: an
  intermediate value that is not a real number (a quotient by zero, \<open>log2\<close> of a
  non-positive argument, which C++ computes as an infinity or a NaN) and undefined
  behaviour (a conversion from float to an unsigned integer type whose truncated value
  does not fit, a read past the end of a buffer).  The type \<open>size_t\<close> is a 64-bit
  word, \<open>uint8_t\<close> an 8-bit word and \<open>uint32_t\<close> a 32-bit word.
\<close>

type_synonym size_t = "64 word"

text \<open>
  Modelled from the spec: the struct \<open>Color\<close> is declared in recoverymapmath.h, outside
  recoverymapmath.cpp.  It holds three 32-bit floats, read either as
  (r, g, b) or as (y, u, v); the two readings name the same three slots, so a Color built
  from (y, u, v) has y in \<open>r\<close>, u in \<open>g\<close> and v in \<open>b\<close>.
\<close>

record Color =
  r :: real
  g :: real
  b :: real

text \<open>
  Modelled from the spec: the enumeration \<open>jpegr_color_gamut\<close> is declared in a header
  outside recoverymapmath.cpp.  Its values are BT.709, Display-P3, BT.2100 and
  Unspecified, under the enumerator names that \<open>getHdrConversionFn\<close> switches on.
\<close>

datatype jpegr_color_gamut =
    JPEGR_COLORGAMUT_UNSPECIFIED
  | JPEGR_COLORGAMUT_BT709
  | JPEGR_COLORGAMUT_P3
  | JPEGR_COLORGAMUT_BT2100

text \<open>
  Modelled from the spec: the descriptor behind \<open>jr_uncompressed_ptr\<close> is declared in a
  header outside recoverymapmath.cpp.  It holds the width, the height and the
  sample storage, which the code reads through \<open>reinterpret_cast<uint8_t*>\<close> as a
  sequence of bytes.  Width and height enter the index arithmetic together with \<open>size_t\<close>
  coordinates and are kept as \<open>size_t\<close> values.
\<close>

record jpegr_uncompressed_struct =
  data :: "8 word list"
  width :: size_t
  height :: size_t

section \<open>Conversions between float and unsigned integers\<close>

text \<open>\<open>static_cast\<close> from float to an integer type discards the fractional part.\<close>

definition trunc_toward_zero :: "real \<Rightarrow> int" where
  "trunc_toward_zero v = (if 0 \<le> v then \<lfloor>v\<rfloor> else \<lceil>v\<rceil>)"

text \<open>
  The conversion is undefined when the truncated value is not representable in the
  destination type.
\<close>

definition float_to_uint :: "real \<Rightarrow> 'a::len word option" where
  "float_to_uint v =
     (let t = trunc_toward_zero v
      in if 0 \<le> t \<and> t < 2 ^ LENGTH('a) then Some (word_of_int t) else None)"

definition uint_to_float :: "'a::len word \<Rightarrow> real" where
  "uint_to_float w = real (unat w)"

text \<open>Reading \<open>reinterpret_cast<uint8_t*>(p->data)[i]\<close>.\<close>

definition read_u8 :: "8 word list \<Rightarrow> size_t \<Rightarrow> 8 word option" where
  "read_u8 buf i = (if unat i < length buf then Some (buf ! unat i) else None)"

section \<open>Color conversions\<close>

definition bt709ToP3 :: "Color \<Rightarrow> Color" where
  "bt709ToP3 e =
     \<lparr> r = 0.82254 * r e + 0.17755 * g e + 0.00006 * b e,
       g = 0.03312 * r e + 0.96684 * g e + - 0.00001 * b e,
       b = 0.01706 * r e + 0.07240 * g e + 0.91049 * b e \<rparr>"

definition bt709ToBt2100 :: "Color \<Rightarrow> Color" where
  "bt709ToBt2100 e =
     \<lparr> r = 0.62740 * r e + 0.32930 * g e + 0.04332 * b e,
       g = 0.06904 * r e + 0.91958 * g e + 0.01138 * b e,
       b = 0.01636 * r e + 0.08799 * g e + 0.89555 * b e \<rparr>"

definition p3ToBt709 :: "Color \<Rightarrow> Color" where
  "p3ToBt709 e =
     \<lparr> r = 1.22482 * r e + - 0.22490 * g e + - 0.00007 * b e,
       g = - 0.04196 * r e + 1.04199 * g e + 0.00001 * b e,
       b = - 0.01961 * r e + - 0.07865 * g e + 1.09831 * b e \<rparr>"

definition p3ToBt2100 :: "Color \<Rightarrow> Color" where
  "p3ToBt2100 e =
     \<lparr> r = 0.75378 * r e + 0.19862 * g e + 0.04754 * b e,
       g = 0.04576 * r e + 0.94177 * g e + 0.01250 * b e,
       b = - 0.00121 * r e + 0.01757 * g e + 0.98359 * b e \<rparr>"

definition bt2100ToBt709 :: "Color \<Rightarrow> Color" where
  "bt2100ToBt709 e =
     \<lparr> r = 1.66045 * r e + - 0.58764 * g e + - 0.07286 * b e,
       g = - 0.12445 * r e + 1.13282 * g e + - 0.00837 * b e,
       b = - 0.01811 * r e + - 0.10057 * g e + 1.11878 * b e \<rparr>"

definition bt2100ToP3 :: "Color \<Rightarrow> Color" where
  "bt2100ToP3 e =
     \<lparr> r = 1.34369 * r e + - 0.28223 * g e + - 0.06135 * b e,
       g = - 0.06533 * r e + 1.07580 * g e + - 0.01051 * b e,
       b = 0.00283 * r e + - 0.01957 * g e + 1.01679 * b e \<rparr>"

text \<open>
  Modelled from the spec: \<open>identityConversion\<close> is declared in recoverymapmath.h and its
  body is not part of recoverymapmath.cpp.  The spec calls it the identity transform, which
  applied to any Color returns the same Color.
\<close>

definition identityConversion :: "Color \<Rightarrow> Color" where
  "identityConversion e = e"

text \<open>
  A \<open>ColorTransformFn\<close> is a pointer to one of the functions above; \<open>nullptr\<close> is
  \<open>None\<close>.  The pointer is the name of the function, \<open>callColorTransformFn\<close> is the call
  through it.
\<close>

datatype ColorTransformFn =
    Fn_identityConversion
  | Fn_bt709ToP3
  | Fn_bt709ToBt2100
  | Fn_p3ToBt709
  | Fn_p3ToBt2100
  | Fn_bt2100ToBt709
  | Fn_bt2100ToP3

fun callColorTransformFn :: "ColorTransformFn \<Rightarrow> Color \<Rightarrow> Color" where
  "callColorTransformFn Fn_identityConversion e = identityConversion e"
| "callColorTransformFn Fn_bt709ToP3 e = bt709ToP3 e"
| "callColorTransformFn Fn_bt709ToBt2100 e = bt709ToBt2100 e"
| "callColorTransformFn Fn_p3ToBt709 e = p3ToBt709 e"
| "callColorTransformFn Fn_p3ToBt2100 e = p3ToBt2100 e"
| "callColorTransformFn Fn_bt2100ToBt709 e = bt2100ToBt709 e"
| "callColorTransformFn Fn_bt2100ToP3 e = bt2100ToP3 e"

fun getHdrConversionFn :: "jpegr_color_gamut \<Rightarrow> jpegr_color_gamut \<Rightarrow> ColorTransformFn option" where
  "getHdrConversionFn JPEGR_COLORGAMUT_BT709 JPEGR_COLORGAMUT_BT709 = Some Fn_identityConversion"
| "getHdrConversionFn JPEGR_COLORGAMUT_BT709 JPEGR_COLORGAMUT_P3 = Some Fn_p3ToBt709"
| "getHdrConversionFn JPEGR_COLORGAMUT_BT709 JPEGR_COLORGAMUT_BT2100 = Some Fn_bt2100ToBt709"
| "getHdrConversionFn JPEGR_COLORGAMUT_BT709 JPEGR_COLORGAMUT_UNSPECIFIED = None"
| "getHdrConversionFn JPEGR_COLORGAMUT_P3 JPEGR_COLORGAMUT_BT709 = Some Fn_bt709ToP3"
| "getHdrConversionFn JPEGR_COLORGAMUT_P3 JPEGR_COLORGAMUT_P3 = Some Fn_identityConversion"
| "getHdrConversionFn JPEGR_COLORGAMUT_P3 JPEGR_COLORGAMUT_BT2100 = Some Fn_bt2100ToP3"
| "getHdrConversionFn JPEGR_COLORGAMUT_P3 JPEGR_COLORGAMUT_UNSPECIFIED = None"
| "getHdrConversionFn JPEGR_COLORGAMUT_BT2100 JPEGR_COLORGAMUT_BT709 = Some Fn_bt709ToBt2100"
| "getHdrConversionFn JPEGR_COLORGAMUT_BT2100 JPEGR_COLORGAMUT_P3 = Some Fn_p3ToBt2100"
| "getHdrConversionFn JPEGR_COLORGAMUT_BT2100 JPEGR_COLORGAMUT_BT2100 = Some Fn_identityConversion"
| "getHdrConversionFn JPEGR_COLORGAMUT_BT2100 JPEGR_COLORGAMUT_UNSPECIFIED = None"
| "getHdrConversionFn JPEGR_COLORGAMUT_UNSPECIFIED hdr_gamut = None"

section \<open>Recovery map calculations\<close>

text \<open>
  \<open>encodeRecovery\<close>: \<open>gain0\<close>, \<open>gain1\<close> and \<open>gain2\<close> are the successive values of
  the variable \<open>gain\<close>.  With \<open>gain2 \<le> 0\<close> or \<open>hdr_ratio \<le> 0\<close> a \<open>log2\<close> is taken of
  a non-positive number and with \<open>hdr_ratio = 1\<close> the divisor \<open>log2(hdr_ratio)\<close> is zero;
  the value handed to \<open>static_cast<uint8_t>\<close> is then not a real number.
\<close>

definition encodeRecovery :: "real \<Rightarrow> real \<Rightarrow> real \<Rightarrow> 8 word option" where
  "encodeRecovery y_sdr y_hdr hdr_ratio =
     (let gain0 = (if y_sdr > 0 then y_hdr / y_sdr else 1);
          gain1 = (if gain0 < - hdr_ratio then - hdr_ratio else gain0);
          gain2 = (if gain1 > hdr_ratio then hdr_ratio else gain1)
      in if gain2 \<le> 0 \<or> hdr_ratio \<le> 0 \<or> hdr_ratio = 1 then None
         else float_to_uint (log 2 gain2 / log 2 hdr_ratio * 127.5 + 127.5))"



definition clamp :: "size_t \<Rightarrow> size_t \<Rightarrow> size_t \<Rightarrow> size_t" where
  "clamp val low high = (if val < low then low else (if high < val then high else val))"

definition mapUintToFloat :: "8 word \<Rightarrow> real" where
  "mapUintToFloat map_uint = (uint_to_float map_uint - 127.5) / 127.5"

definition sampleMap :: "jpegr_uncompressed_struct \<Rightarrow> size_t \<Rightarrow> size_t \<Rightarrow> size_t \<Rightarrow> real option" where
  "sampleMap mp map_scale_factor x y =
     (if map_scale_factor = 0 then None
      else
        let x_map = uint_to_float x / uint_to_float map_scale_factor;
            y_map = uint_to_float y / uint_to_float map_scale_factor
        in case (float_to_uint (of_int \<lfloor>x_map\<rfloor>), float_to_uint (of_int \<lfloor>y_map\<rfloor>)) of
             (Some x_lower0, Some y_lower0) \<Rightarrow>
               (let x_upper0 = x_lower0 + 1;
                    y_upper0 = y_lower0 + 1;
                    x_lower = clamp x_lower0 0 (width mp - 1);
                    x_upper = clamp x_upper0 0 (width mp - 1);
                    y_lower = clamp y_lower0 0 (height mp - 1);
                    y_upper = clamp y_upper0 0 (height mp - 1);
                    x_influence = x_map - uint_to_float x_lower;
                    y_influence = y_map - uint_to_float y_lower
                in case (read_u8 (data mp) (x_lower + y_lower * width mp),
                         read_u8 (data mp) (x_lower + y_upper * width mp),
                         read_u8 (data mp) (x_upper + y_lower * width mp),
                         read_u8 (data mp) (x_upper + y_upper * width mp)) of
                     (Some m1, Some m2, Some m3, Some m4) \<Rightarrow>
                       (let e1 = mapUintToFloat m1;
                            e2 = mapUintToFloat m2;
                            e3 = mapUintToFloat m3;
                            e4 = mapUintToFloat m4
                        in Some (e1 * (x_influence + y_influence) / 2
                               + e2 * (x_influence + 1 - y_influence) / 2
                               + e3 * (1 - x_influence + y_influence) / 2
                               + e4 * (1 - x_influence + 1 - y_influence) / 2))
                   | _ \<Rightarrow> None)
           | _ \<Rightarrow> None)"

definition getYuv420Pixel :: "jpegr_uncompressed_struct \<Rightarrow> size_t \<Rightarrow> size_t \<Rightarrow> Color option" where
  "getYuv420Pixel img x y =
     (let pixel_count = width img * height img;
          pixel_y_idx = x + y * width img;
          pixel_uv_idx = x div 2 + (y div 2) * (width img div 2)
      in case (read_u8 (data img) pixel_y_idx,
               read_u8 (data img) (pixel_count + pixel_uv_idx),
               read_u8 (data img) (pixel_count * 5 div 4 + pixel_uv_idx)) of
           (Some y_uint, Some u_uint, Some v_uint) \<Rightarrow>
             Some \<lparr> r = uint_to_float y_uint / 255,
                    g = (uint_to_float u_uint - 128) / 255,
                    b = (uint_to_float v_uint - 128) / 255 \<rparr>
         | _ \<Rightarrow> None)"

definition colorToRgba1010102 :: "Color \<Rightarrow> 32 word option" where
  "colorToRgba1010102 e_gamma =
     (case (float_to_uint (r e_gamma * 1023) :: 32 word option,
            float_to_uint (g e_gamma * 1023) :: 32 word option,
            float_to_uint (b e_gamma * 1023) :: 32 word option) of
        (Some ri, Some gi, Some bi) \<Rightarrow>
          Some ((0x3ff AND ri)
             OR (push_bit 10 (0x3ff AND gi))
             OR (push_bit 20 (0x3ff AND bi))
             OR (push_bit 30 0x3))
      | _ \<Rightarrow> None)"

section \<open>The gain encoding in the words of the specification\<close>



section \<open>Gamut conversion lookup\<close>

text \<open>
  C8: \<open>getHdrConversionFn\<close> returns the null pointer exactly when one of its two gamut
  arguments is \<open>JPEGR_COLORGAMUT_UNSPECIFIED\<close>; for such a pair it does not return the
  identity conversion.
\<close>

theorem getHdrConversionFn_null_iff_unspecified:
  "(getHdrConversionFn sdr_gamut hdr_gamut = None) =
     (sdr_gamut = JPEGR_COLORGAMUT_UNSPECIFIED \<or> hdr_gamut = JPEGR_COLORGAMUT_UNSPECIFIED)
   \<and> ((sdr_gamut = JPEGR_COLORGAMUT_UNSPECIFIED \<or> hdr_gamut = JPEGR_COLORGAMUT_UNSPECIFIED)
        \<longrightarrow> getHdrConversionFn sdr_gamut hdr_gamut \<noteq> Some Fn_identityConversion)"
  by (cases sdr_gamut; cases hdr_gamut; simp)

theorem getHdrConversionFn_null_iff_unspecified_witness:
  "(getHdrConversionFn JPEGR_COLORGAMUT_BT709 JPEGR_COLORGAMUT_UNSPECIFIED = None)
   \<and> (JPEGR_COLORGAMUT_BT709 = JPEGR_COLORGAMUT_UNSPECIFIED
        \<or> JPEGR_COLORGAMUT_UNSPECIFIED = JPEGR_COLORGAMUT_UNSPECIFIED)
   \<and> getHdrConversionFn JPEGR_COLORGAMUT_BT709 JPEGR_COLORGAMUT_UNSPECIFIED
        \<noteq> Some Fn_identityConversion"
  using getHdrConversionFn_null_iff_unspecified
          [of JPEGR_COLORGAMUT_BT709 JPEGR_COLORGAMUT_UNSPECIFIED]
  by simp

text \<open>
  C7: for each of the gamuts BT.709, Display-P3 and BT.2100, \<open>getHdrConversionFn\<close> called
  with that gamut on both sides returns the identity conversion, and calling the returned
  function on any Color gives back that Color.
\<close>

theorem getHdrConversionFn_same_gamut_identity:
  "G \<in> {JPEGR_COLORGAMUT_BT709, JPEGR_COLORGAMUT_P3, JPEGR_COLORGAMUT_BT2100} \<Longrightarrow>
     getHdrConversionFn G G = Some Fn_identityConversion
     \<and> (\<exists>f. getHdrConversionFn G G = Some f \<and> callColorTransformFn f e = e)"
  by (auto simp: identityConversion_def)

theorem getHdrConversionFn_same_gamut_identity_witness:
  "JPEGR_COLORGAMUT_P3 \<in> {JPEGR_COLORGAMUT_BT709, JPEGR_COLORGAMUT_P3, JPEGR_COLORGAMUT_BT2100}
   \<and> getHdrConversionFn JPEGR_COLORGAMUT_P3 JPEGR_COLORGAMUT_P3 = Some Fn_identityConversion
   \<and> callColorTransformFn Fn_identityConversion \<lparr> r = 1/4, g = 1/2, b = 3/4 \<rparr>
       = \<lparr> r = 1/4, g = 1/2, b = 3/4 \<rparr>"
  using getHdrConversionFn_same_gamut_identity
          [of JPEGR_COLORGAMUT_P3 "\<lparr> r = 1/4, g = 1/2, b = 3/4 \<rparr>"]
  by simp

section \<open>Auxiliary facts\<close>

subsection \<open>Logarithms of powers of two\<close>

lemma log2_pow2: "log 2 (2 ^ n) = real n"
  using log_nat_power [of 2 2 n] by simp

lemma log2_4: "log 2 4 = 2"
  using log2_pow2 [of 2] by simp



subsection \<open>Truncation\<close>



subsection \<open>Bit fields of the packed word\<close>




subsection \<open>Index arithmetic on \<open>size_t\<close>\<close>

lemma unat_add_nowrap:
  fixes a c :: "64 word"
  assumes "unat a + unat c < 2 ^ 64"
  shows "unat (a + c) = unat a + unat c"
  using assms unat_add_lem [of a c] by simp

lemma unat_mult_nowrap:
  fixes a c :: "64 word"
  assumes "unat a * unat c < 2 ^ 64"
  shows "unat (a * c) = unat a * unat c"
  using assms unat_mult_lem [of a c] by simp

lemma row_major_bound:
  fixes X Y W H :: nat
  assumes "X < W" "Y < H"
  shows "X + Y * W < W * H"
proof -
  from assms(2) have "Y + 1 \<le> H" by simp
  then have "(Y + 1) * W \<le> H * W" by (rule mult_le_mono1)
  moreover from assms(1) have "X + Y * W < (Y + 1) * W" by simp
  ultimately show ?thesis by (simp add: mult.commute)
qed

lemma chroma_le_luma:
  fixes X Y W :: nat
  shows "X div 2 + (Y div 2) * (W div 2) \<le> X + Y * W"
proof -
  have "(Y div 2) * (W div 2) \<le> Y * W" by (rule mult_le_mono) simp_all
  moreover have "X div 2 \<le> X" by simp
  ultimately show ?thesis by (rule add_le_mono[rotated])
qed

lemma v_plane_bound:
  fixes C P N :: nat
  assumes "C < P" "P * 5 < N"
  shows "P * 5 div 4 + C < N"
  using assms by arith

lemma yuv420_indices:
  fixes x y w h :: "64 word"
  assumes nowrap: "unat w * unat h * 5 < 2 ^ 64"
    and xw: "x < w" and yh: "y < h"
  shows "unat (x + y * w) = unat x + unat y * unat w"
    and "unat (w * h + (x div 2 + (y div 2) * (w div 2)))
           = unat w * unat h + (unat x div 2 + (unat y div 2) * (unat w div 2))"
    and "unat (w * h * 5 div 4 + (x div 2 + (y div 2) * (w div 2)))
           = unat w * unat h * 5 div 4 + (unat x div 2 + (unat y div 2) * (unat w div 2))"
    and "unat x + unat y * unat w < unat w * unat h"
proof -
  let ?X = "unat x" and ?Y = "unat y" and ?W = "unat w" and ?H = "unat h"
  have X: "?X < ?W" using xw by (simp add: word_less_nat_alt)
  have Y: "?Y < ?H" using yh by (simp add: word_less_nat_alt)
  have luma: "?X + ?Y * ?W < ?W * ?H" using X Y by (rule row_major_bound)
  then show "?X + ?Y * ?W < ?W * ?H" .
  have wh: "?W * ?H < 2 ^ 64" using nowrap by simp
  have yw: "unat (y * w) = ?Y * ?W"
    using luma wh by (intro unat_mult_nowrap) simp
  show "unat (x + y * w) = ?X + ?Y * ?W"
    using luma wh yw by (simp add: unat_add_nowrap)
  have chroma: "?X div 2 + (?Y div 2) * (?W div 2) < ?W * ?H"
    using chroma_le_luma [of ?X ?Y ?W] luma by simp
  have yw2: "unat ((y div 2) * (w div 2)) = (?Y div 2) * (?W div 2)"
    using chroma wh by (intro unat_mult_nowrap [THEN trans]) (simp_all add: unat_div)
  have uv: "unat (x div 2 + (y div 2) * (w div 2)) = ?X div 2 + (?Y div 2) * (?W div 2)"
    using chroma wh yw2 by (intro unat_add_nowrap [THEN trans]) (simp_all add: unat_div)
  have pc: "unat (w * h) = ?W * ?H" using wh by (rule unat_mult_nowrap)
  show "unat (w * h + (x div 2 + (y div 2) * (w div 2)))
          = ?W * ?H + (?X div 2 + (?Y div 2) * (?W div 2))"
    using chroma nowrap pc uv by (intro unat_add_nowrap [THEN trans]) simp_all
  have pc5: "unat (w * h * 5) = ?W * ?H * 5"
    using nowrap pc by (intro unat_mult_nowrap [THEN trans]) simp_all
  have pc54: "unat (w * h * 5 div 4) = ?W * ?H * 5 div 4"
    using pc5 by (simp add: unat_div)
  show "unat (w * h * 5 div 4 + (x div 2 + (y div 2) * (w div 2)))
          = ?W * ?H * 5 div 4 + (?X div 2 + (?Y div 2) * (?W div 2))"
    using v_plane_bound [OF chroma nowrap] pc54 uv
    by (intro unat_add_nowrap [THEN trans]) simp_all
qed

subsection \<open>The edge clamp of the map sampler\<close>






section \<open>Gain encoding\<close>

text \<open>
  C6: \<open>encodeRecovery\<close> with SDR luminance 0.5, HDR luminance 1.0 and \<open>hdr_ratio\<close> 4.0
  returns the byte 191: the ratio is 2, the normalized gain is 0.5 and the value converted
  to a byte is 191.25.
\<close>

theorem encodeRecovery_example_191:
  "encodeRecovery (1/2) 1 4 = Some 191"
  by (simp add: encodeRecovery_def float_to_uint_def trunc_toward_zero_def log2_4)




section \<open>Neutral gain\<close>



section \<open>Sampling the recovery map\<close>

text \<open>
  C1: at coordinates that the map scale factor divides and whose cell lies inside the map,
  \<open>sampleMap\<close> should return the decoded value of that cell alone.  On the 2 by 2 map
  with bytes 255, 0, 0, 0, scale factor 2 and coordinates (0, 0), the cell (0, 0) holds
  255, which decodes to 1, and the code returns -2: the cell itself has weight 0 and its
  three neighbours, each decoding to -1, have weights 1/2, 1/2 and 1.
\<close>

theorem sampleMap_grid_aligned_example:
  "sampleMap \<lparr> data = [255, 0, 0, 0], width = 2, height = 2 \<rparr> 2 0 0 = Some (- 2)
   \<and> mapUintToFloat ([255, 0, 0, 0] ! 0) = 1"
  by (simp add: sampleMap_def float_to_uint_def trunc_toward_zero_def clamp_def read_u8_def
      mapUintToFloat_def uint_to_float_def)



section \<open>Reading a YUV420 pixel\<close>

text \<open>
  C10: for an image of width w and height h and coordinates x < w, y < h, when the sizes
  do not wrap around in \<open>size_t\<close> and the buffer holds the bytes that are read, the Color
  returned by \<open>getYuv420Pixel\<close> is (Y / 255, (U - 128) / 255, (V - 128) / 255), with Y the
  byte at index x + y * w, U the byte at offset w * h plus the chroma index
  x / 2 + (y / 2) * (w / 2), and V the byte at offset w * h * 5 / 4 plus the same chroma
  index.
\<close>

theorem getYuv420Pixel_planes:
  assumes nowrap: "unat (width img) * unat (height img) * 5 < 2 ^ 64"
    and xw: "x < width img" and yh: "y < height img"
    and len: "unat (width img) * unat (height img) * 5 div 4
               + (unat x div 2 + (unat y div 2) * (unat (width img) div 2)) < length (data img)"
  shows "getYuv420Pixel img x y =
           Some \<lparr> r = real (unat (data img ! (unat x + unat y * unat (width img)))) / 255,
                  g = (real (unat (data img ! (unat (width img) * unat (height img)
                         + (unat x div 2 + (unat y div 2) * (unat (width img) div 2))))) - 128) / 255,
                  b = (real (unat (data img ! (unat (width img) * unat (height img) * 5 div 4
                         + (unat x div 2 + (unat y div 2) * (unat (width img) div 2))))) - 128) / 255 \<rparr>"
proof -
  note idx = yuv420_indices [OF nowrap xw yh]
  let ?P = "unat (width img) * unat (height img)"
  let ?C = "unat x div 2 + (unat y div 2) * (unat (width img) div 2)"
  have le54: "?P \<le> ?P * 5 div 4" by arith
  have y_in: "unat x + unat y * unat (width img) < length (data img)"
    using idx(4) le54 len by linarith
  have u_in: "?P + ?C < length (data img)"
    using le54 len by linarith
  show ?thesis
    using y_in u_in len
    by (simp add: getYuv420Pixel_def read_u8_def uint_to_float_def idx(1,2,3))
qed

theorem getYuv420Pixel_planes_witness:
  "getYuv420Pixel \<lparr> data = [10, 20, 30, 40, 50, 60], width = 2, height = 2 \<rparr> 1 1
     = Some \<lparr> r = 40 / 255, g = (50 - 128) / 255, b = (60 - 128) / 255 \<rparr>"
  using getYuv420Pixel_planes
          [of "\<lparr> data = [10, 20, 30, 40, 50, 60], width = 2, height = 2 \<rparr>" 1 1]
  by simp

section \<open>Packing to RGBA 10-10-10-2\<close>

text \<open>
  C4, as stated: \<open>colorToRgba1010102\<close> of the Color (1.0, 0.0, 1.0) is the word
  0xC00003FF.  That word has 0 in bits 20 to 29, where the blue channel 1023 belongs.
\<close>

theorem colorToRgba1010102_example_not_C00003FF:
  "colorToRgba1010102 \<lparr> r = 1, g = 0, b = 1 \<rparr> \<noteq> Some 0xC00003FF"
  by (simp add: colorToRgba1010102_def float_to_uint_def trunc_toward_zero_def)

text \<open>
  C4, amended: \<open>colorToRgba1010102\<close> of the Color (1.0, 0.0, 1.0) is the word 0xFFF003FF:
  1023 in bits 0 to 9, 0 in bits 10 to 19, 1023 in bits 20 to 29 and 3 in bits 30 and 31.
\<close>

theorem colorToRgba1010102_example:
  "colorToRgba1010102 \<lparr> r = 1, g = 0, b = 1 \<rparr> = Some 0xFFF003FF"
  by (simp add: colorToRgba1010102_def float_to_uint_def trunc_toward_zero_def)



end
